theory Spec2Isabelle
  imports Main "HOL-Library.Word"
begin

unbundle bit_operations_syntax

section \<open>Bytes, exceptions and the Python built-ins used by \<open>analyze_bytes.py\<close>\<close>

type_synonym byte = "8 word"

text \<open>The exceptions that can leave the two functions of the script.\<close>

datatype exc =
    ValueError
  | OverflowError
  | TypeError
  | StructError
  | OSError
  | UnicodeDecodeError
  | SystemExit nat

text \<open>
  Python's slice \<open>data[i:j]\<close> of a bytes object, for \<open>0 \<le> i\<close>: it is cut at the end of the
  data and never raises.
\<close>

definition py_slice :: "'a list \<Rightarrow> nat \<Rightarrow> nat \<Rightarrow> 'a list" where
  "py_slice xs i j = take (j - i) (drop i xs)"

text \<open>\<open>range(n)\<close> for an integer \<open>n\<close>: empty when \<open>n \<le> 0\<close>.\<close>

definition range_py :: "int \<Rightarrow> nat list" where
  "range_py n = [0..<nat n]"

text \<open>
  The four bytes of a 32-bit pattern, least significant byte first (\<open><\<close>) and most
  significant byte first (\<open>>\<close>).
\<close>

definition le_bytes32 :: "32 word \<Rightarrow> byte list" where
  "le_bytes32 w = [ucast w, ucast (drop_bit 8 w), ucast (drop_bit 16 w), ucast (drop_bit 24 w)]"

definition be_bytes32 :: "32 word \<Rightarrow> byte list" where
  "be_bytes32 w = [ucast (drop_bit 24 w), ucast (drop_bit 16 w), ucast (drop_bit 8 w), ucast w]"

text \<open>
  \<open>struct.pack('<I', n)\<close> and \<open>struct.pack('>I', n)\<close> on a Python integer: \<open>struct.error\<close>
  outside the unsigned 32-bit range.
\<close>

definition struct_pack_I :: "bool \<Rightarrow> int \<Rightarrow> exc + byte list" where
  "struct_pack_I little n =
     (if 0 \<le> n \<and> n \<le> 4294967295
      then Inr ((if little then le_bytes32 else be_bytes32) (word_of_int n))
      else Inl StructError)"

text \<open>
  The built-ins whose behaviour is decided outside the script are parameters of the model:
  \<open>float(target_value)\<close> and \<open>int(target_value)\<close> on whatever object \<open>'t\<close> the caller passes
  (the command line passes a string), and the conversion of a Python float \<open>'d\<close> to the
  32-bit IEEE-754 pattern that \<open>struct.pack\<close> writes for the format \<open>f\<close>
  (\<open>OverflowError\<close> when a finite value is too large for binary32).
\<close>

record ('t, 'd) builtins =
  py_float :: "'t \<Rightarrow> exc + 'd"
  py_int :: "'t \<Rightarrow> exc + int"
  to_float32 :: "'d \<Rightarrow> exc + 32 word"

text \<open>\<open>struct.pack('<f', x)\<close> and \<open>struct.pack('>f', x)\<close>: the same pattern in either byte order.\<close>

definition struct_pack_f :: "('t, 'd) builtins \<Rightarrow> bool \<Rightarrow> 'd \<Rightarrow> exc + byte list" where
  "struct_pack_f env little x =
     (case to_float32 env x of
        Inl e \<Rightarrow> Inl e
      | Inr w \<Rightarrow> Inr ((if little then le_bytes32 else be_bytes32) w))"

text \<open>Sequencing of steps that may raise: the first exception ends the computation.\<close>

definition bind_exc :: "exc + 'a \<Rightarrow> ('a \<Rightarrow> exc + 'b) \<Rightarrow> exc + 'b" where
  "bind_exc r k = (case r of Inl e \<Rightarrow> Inl e | Inr v \<Rightarrow> k v)"

section \<open>\<open>scan_for_value\<close>\<close>

text \<open>
  One \<open>for i in range(len(data) - 3)\<close> loop of \<open>scan_for_value\<close>: the positions still to
  visit, and the list \<open>matches\<close> built so far.
\<close>

fun scan_loop ::
  "byte list \<Rightarrow> byte list \<Rightarrow> string \<Rightarrow> nat list \<Rightarrow> (nat \<times> string) list \<Rightarrow> (nat \<times> string) list"
where
  "scan_loop data target_bytes tag [] matches = matches"
| "scan_loop data target_bytes tag (i # rest) matches =
     scan_loop data target_bytes tag rest
       (if py_slice data i (i + 4) = target_bytes then matches @ [(i, tag)] else matches)"

text \<open>
  Lines 137 to 163 of the script: the value of \<open>matches\<close> after the \<open>if\<close>/\<open>elif\<close> on
  \<open>value_type\<close>, or the exception raised by a conversion. Each branch converts and packs
  the target, loops, then converts and packs again for the other byte order and loops again.
\<close>

definition scan_matches ::
  "('t, 'd) builtins \<Rightarrow> byte list \<Rightarrow> 't \<Rightarrow> string \<Rightarrow> exc + (nat \<times> string) list"
where
  "scan_matches env data target_value value_type =
     (let positions = range_py (int (length data) - 3) in
      if value_type = ''float'' then
        bind_exc (py_float env target_value) (\<lambda>x.
        bind_exc (struct_pack_f env True x) (\<lambda>target_le.
        let matches = scan_loop data target_le ''float_le'' positions [] in
        bind_exc (py_float env target_value) (\<lambda>y.
        bind_exc (struct_pack_f env False y) (\<lambda>target_be.
        Inr (scan_loop data target_be ''float_be'' positions matches)))))
      else if value_type = ''int'' then
        bind_exc (py_int env target_value) (\<lambda>n.
        bind_exc (struct_pack_I True n) (\<lambda>target_le.
        let matches = scan_loop data target_le ''uint32_le'' positions [] in
        bind_exc (py_int env target_value) (\<lambda>m.
        bind_exc (struct_pack_I False m) (\<lambda>target_be.
        Inr (scan_loop data target_be ''uint32_be'' positions matches)))))
      else Inr [])"

text \<open>
  What \<open>scan_for_value\<close> prints, one constructor for each \<open>print\<close> of the function (the
  banner is its first four prints together).
\<close>

datatype 't scan_line =
    File_not_found
  | Scan_banner 't string
  | Found_count nat
  | Match_line nat "byte list" string
  | No_matches_found
  | Blank_line

text \<open>
  The whole function. The file is the content of \<open>filename\<close>, or \<open>None\<close> when the path does
  not exist. The result is what was printed, and the exception that ended the call, if any.
\<close>

definition scan_for_value ::
  "('t, 'd) builtins \<Rightarrow> byte list option \<Rightarrow> 't \<Rightarrow> string \<Rightarrow> 't scan_line list \<times> exc option"
where
  "scan_for_value env file target_value value_type =
     (case file of
        None \<Rightarrow> ([File_not_found], Some (SystemExit 1))
      | Some data \<Rightarrow>
          (case scan_matches env data target_value value_type of
             Inl e \<Rightarrow> ([Scan_banner target_value value_type], Some e)
           | Inr matches \<Rightarrow>
               ([Scan_banner target_value value_type]
                @ (if matches \<noteq> []
                   then Found_count (length matches)
                        # map (\<lambda>(offset, encoding).
                                 Match_line offset (py_slice data offset (offset + 4)) encoding) matches
                   else [No_matches_found])
                @ [Blank_line], None)))"

section \<open>\<open>analyze_offset\<close>\<close>

text \<open>
  \<open>f.seek(offset)\<close> followed by \<open>f.read(byte_count)\<close> on a file opened with \<open>'rb'\<close>. The
  seek refuses a negative offset (\<open>OSError\<close>) and an offset that does not fit a signed
  64-bit file position (\<open>ValueError\<close>). The read refuses a count below \<open>-1\<close>
  (\<open>ValueError\<close>) and a count of \<open>2 ^ 63 - 1\<close> or more (\<open>OverflowError\<close>); a count of \<open>-1\<close>
  reads to the end of the file, and a seek past the end reads nothing. Inside these bounds
  the file system and the allocator are taken to grant the request.
\<close>

definition read_at :: "byte list \<Rightarrow> int \<Rightarrow> int \<Rightarrow> exc + byte list" where
  "read_at content offset byte_count =
     (if offset < 0 then Inl OSError
      else if 2 ^ 63 \<le> offset then Inl ValueError
      else if byte_count < - 1 then Inl ValueError
      else if 2 ^ 63 - 1 \<le> byte_count then Inl OverflowError
      else if byte_count = - 1 then Inr (drop (nat offset) content)
      else Inr (take (nat byte_count) (drop (nat offset) content)))"

text \<open>
  The values \<open>struct.unpack\<close> returns for the formats of the script. A float is kept as the
  binary32 pattern it was read from: every pattern is a value, the infinities and the NaNs
  included.
\<close>

datatype pyval = Float32 "32 word" | Integer int

definition is_inf32 :: "32 word \<Rightarrow> bool" where
  "is_inf32 w = (w AND 0x7FFFFFFF = 0x7F800000)"

definition is_nan32 :: "32 word \<Rightarrow> bool" where
  "is_nan32 w = (w AND 0x7F800000 = 0x7F800000 \<and> w AND 0x007FFFFF \<noteq> 0)"

definition uint_le :: "byte list \<Rightarrow> nat" where
  "uint_le bs = foldr (\<lambda>b acc. unat b + 256 * acc) bs 0"

definition uint_be :: "byte list \<Rightarrow> nat" where
  "uint_be bs = uint_le (rev bs)"

text \<open>
  \<open>struct.unpack(fmt, data)[0]\<close> for the seven formats the script uses: \<open>struct.error\<close> when
  the data does not have the size of the format.
\<close>

definition struct_unpack :: "string \<Rightarrow> byte list \<Rightarrow> exc + pyval" where
  "struct_unpack fmt data =
     (if fmt = ''<f'' then
        (if length data = 4 then Inr (Float32 (word_of_nat (uint_le data))) else Inl StructError)
      else if fmt = ''>f'' then
        (if length data = 4 then Inr (Float32 (word_of_nat (uint_be data))) else Inl StructError)
      else if fmt = ''<I'' then
        (if length data = 4 then Inr (Integer (int (uint_le data))) else Inl StructError)
      else if fmt = ''>I'' then
        (if length data = 4 then Inr (Integer (int (uint_be data))) else Inl StructError)
      else if fmt = ''<i'' then
        (if length data = 4 then Inr (Integer (sint (word_of_nat (uint_le data) :: 32 word)))
         else Inl StructError)
      else if fmt = ''>i'' then
        (if length data = 4 then Inr (Integer (sint (word_of_nat (uint_be data) :: 32 word)))
         else Inl StructError)
      else if fmt = ''<H'' then
        (if length data = 2 then Inr (Integer (int (uint_le data))) else Inl StructError)
      else if fmt = ''>H'' then
        (if length data = 2 then Inr (Integer (int (uint_be data))) else Inl StructError)
      else if fmt = ''b'' then
        (if length data = 1 then Inr (Integer (sint (word_of_nat (uint_le data) :: 8 word)))
         else Inl StructError)
      else Inl StructError)"

text \<open>
  \<open>data.decode('utf-8')\<close>: the strict decoder. It refuses continuation bytes out of place,
  overlong forms, the surrogates and everything above U+10FFFF. The text is the list of its
  code points.
\<close>

definition utf8_len :: "byte \<Rightarrow> nat" where
  "utf8_len b =
     (if b < 0x80 then 1
      else if 0xC2 \<le> b \<and> b \<le> 0xDF then 2
      else if 0xE0 \<le> b \<and> b \<le> 0xEF then 3
      else if 0xF0 \<le> b \<and> b \<le> 0xF4 then 4
      else 0)"

definition is_cont :: "byte \<Rightarrow> bool" where
  "is_cont c = (0x80 \<le> c \<and> c \<le> 0xBF)"

definition valid_tail :: "byte \<Rightarrow> byte list \<Rightarrow> bool" where
  "valid_tail b tail =
     (list_all is_cont tail \<and>
      (case tail of
         [] \<Rightarrow> True
       | c # _ \<Rightarrow>
           (b = 0xE0 \<longrightarrow> 0xA0 \<le> c) \<and> (b = 0xED \<longrightarrow> c \<le> 0x9F) \<and>
           (b = 0xF0 \<longrightarrow> 0x90 \<le> c) \<and> (b = 0xF4 \<longrightarrow> c \<le> 0x8F)))"

definition code_point :: "byte \<Rightarrow> byte list \<Rightarrow> nat" where
  "code_point b tail =
     foldl (\<lambda>acc c. acc * 64 + unat c mod 64)
       (if b < 0x80 then unat b
        else if b \<le> 0xDF then unat b mod 32
        else if b \<le> 0xEF then unat b mod 16
        else unat b mod 8) tail"

fun utf8_decode :: "byte list \<Rightarrow> exc + nat list" where
  "utf8_decode [] = Inr []"
| "utf8_decode (b # bs) =
     (let n = utf8_len b in
      if n = 0 \<or> length bs < n - 1 \<or> \<not> valid_tail b (take (n - 1) bs)
      then Inl UnicodeDecodeError
      else bind_exc (utf8_decode (drop (n - 1) bs))
             (\<lambda>cs. Inr (code_point b (take (n - 1) bs) # cs)))"

text \<open>
  What \<open>analyze_offset\<close> prints, one constructor for each \<open>print\<close> (the banner is the four
  prints of the heading together, the heading of the interpretations its two lines). An
  interpretation line carries the label the script prints and the decoded value, or is the
  line that ends in \<open>[invalid]\<close>.
\<close>

datatype line =
    Not_found
  | Short_read nat int
  | Offset_banner int
  | Raw_bytes "byte list"
  | Blank
  | Interp_heading
  | Interp string pyval
  | Interp_invalid string
  | Ascii byte
  | Utf8_string "nat list"

text \<open>
  The \<open>try\<close> blocks of the four-byte branch print the value, or the \<open>[invalid]\<close> line when
  the unpacking raises; those of the two-byte branch print the value or nothing.
\<close>

definition attempt :: "string \<Rightarrow> string \<Rightarrow> byte list \<Rightarrow> line list" where
  "attempt label fmt data =
     (case struct_unpack fmt data of
        Inr val \<Rightarrow> [Interp label val]
      | Inl e \<Rightarrow> [Interp_invalid label])"

definition attempt_quiet :: "string \<Rightarrow> string \<Rightarrow> byte list \<Rightarrow> line list" where
  "attempt_quiet label fmt data =
     (case struct_unpack fmt data of
        Inr val \<Rightarrow> [Interp label val]
      | Inl e \<Rightarrow> [])"

text \<open>
  Lines 38 to 108: the \<open>if\<close>/\<open>elif\<close> chain on \<open>len(data)\<close>. The one-byte branch has no
  \<open>try\<close>, so an exception of its \<open>struct.unpack\<close> would leave the function after the first
  two prints.
\<close>

definition numeric_lines :: "byte list \<Rightarrow> line list \<times> exc option" where
  "numeric_lines data =
     (if length data = 4 then
        (Interp_heading
         # attempt ''Float (LE)'' ''<f'' data
         @ attempt ''Float (BE)'' ''>f'' data
         @ attempt ''Uint32 (LE)'' ''<I'' data
         @ attempt ''Uint32 (BE)'' ''>I'' data
         @ attempt ''Int32 (LE)'' ''<i'' data
         @ attempt ''Int32 (BE)'' ''>i'' data, None)
      else if length data = 2 then
        (Interp_heading
         # attempt_quiet ''Uint16 (LE)'' ''<H'' data
         @ attempt_quiet ''Uint16 (BE)'' ''>H'' data, None)
      else if length data = 1 then
        (case struct_unpack ''b'' data of
           Inl e \<Rightarrow> ([Interp_heading, Interp ''Uint8'' (Integer (uint (hd data)))], Some e)
         | Inr val \<Rightarrow>
             ([Interp_heading, Interp ''Uint8'' (Integer (uint (hd data))), Interp ''Int8'' val]
              @ (if 32 \<le> hd data \<and> hd data \<le> 126 then [Ascii (hd data)] else []), None))
      else ([], None))"

text \<open>
  Lines 110 to 116: the text is printed when the data decodes and \<open>isprintable\<close> holds of it,
  and the bare \<open>except\<close> drops a decoding error. \<open>str.isprintable\<close> asks the Unicode database
  about each character; that table is the parameter \<open>printable\<close>, on code points. The
  \<open>print\<close> itself is taken to succeed (the standard output can encode the text).
\<close>

definition utf8_lines :: "(nat \<Rightarrow> bool) \<Rightarrow> byte list \<Rightarrow> line list" where
  "utf8_lines printable data =
     (case utf8_decode data of
        Inr text \<Rightarrow> if list_all printable text then [Utf8_string text] else []
      | Inl e \<Rightarrow> [])"

text \<open>Lines 28 to 118: everything the function prints once the data is read.\<close>

definition report :: "(nat \<Rightarrow> bool) \<Rightarrow> int \<Rightarrow> byte list \<Rightarrow> line list \<times> exc option" where
  "report printable offset data =
     (case numeric_lines data of
        (ls, Some e) \<Rightarrow> ([Offset_banner offset, Raw_bytes data, Blank] @ ls, Some e)
      | (ls, None) \<Rightarrow>
          ([Offset_banner offset, Raw_bytes data, Blank] @ ls @ utf8_lines printable data
           @ [Blank], None))"

text \<open>
  The whole function. The file is the content of \<open>filename\<close>, or \<open>None\<close> when the path does
  not exist. The result is what was printed, and the exception that ended the call, if any.
\<close>

definition analyze_offset ::
  "(nat \<Rightarrow> bool) \<Rightarrow> byte list option \<Rightarrow> int \<Rightarrow> int \<Rightarrow> line list \<times> exc option"
where
  "analyze_offset printable file offset byte_count =
     (case file of
        None \<Rightarrow> ([Not_found], Some (SystemExit 1))
      | Some content \<Rightarrow>
          (case read_at content offset byte_count of
             Inl e \<Rightarrow> ([], Some e)
           | Inr data \<Rightarrow>
               (let warning = (if int (length data) < byte_count
                               then [Short_read (length data) byte_count] else []);
                    (ls, r) = report printable offset data
                in (warning @ ls, r))))"

text \<open>The labels of the interpretation lines of an output, in the order printed.\<close>

fun labels :: "line list \<Rightarrow> string list" where
  "labels [] = []"
| "labels (Interp label val # ls) = label # labels ls"
| "labels (Interp_invalid label # ls) = label # labels ls"
| "labels (l # ls) = labels ls"

section \<open>The built-ins of CPython on strings\<close>

text \<open>
  The command line passes the target as a string. For the examples, the three built-ins are
  given as CPython computes them on ASCII strings: \<open>int(s)\<close> in base ten, \<open>float(s)\<close>
  rounded to binary64, and the C conversion from binary64 to binary32 with the overflow check
  of \<open>struct.pack\<close>. A finite float \<open>Finite neg m e\<close> is the number \<open>m * 2 ^ e\<close>, negated
  when \<open>neg\<close>.
\<close>

datatype pyfloat = Finite bool nat int | Infinity bool | NaN bool

definition is_space :: "char \<Rightarrow> bool" where
  "is_space c = (let n = (of_char c :: nat) in (9 \<le> n \<and> n \<le> 13) \<or> n = 32)"

definition is_digit :: "char \<Rightarrow> bool" where
  "is_digit c = (let n = (of_char c :: nat) in 48 \<le> n \<and> n \<le> 57)"

definition strip :: "string \<Rightarrow> string" where
  "strip s = rev (dropWhile is_space (rev (dropWhile is_space s)))"

definition digits_value :: "string \<Rightarrow> nat" where
  "digits_value ds = foldl (\<lambda>acc c. 10 * acc + (of_char c - 48)) 0 ds"

text \<open>An underscore is accepted only between two digits; \<open>prev\<close> is the character before.\<close>

fun underscores_ok :: "char \<Rightarrow> string \<Rightarrow> bool" where
  "underscores_ok prev [] = (prev \<noteq> CHR ''_'')"
| "underscores_ok prev (c # cs) =
     ((if c = CHR ''_'' then is_digit prev else prev = CHR ''_'' \<longrightarrow> is_digit c)
      \<and> underscores_ok c cs)"

definition split_sign :: "string \<Rightarrow> bool \<times> string" where
  "split_sign s =
     (case s of
        [] \<Rightarrow> (False, s)
      | c # cs \<Rightarrow>
          if c = CHR ''-'' then (True, cs) else if c = CHR ''+'' then (False, cs) else (False, s))"

text \<open>
  \<open>int(s)\<close>: surrounding whitespace (tab, newline, vertical tab, form feed, carriage return
  and space), a sign, then digits with single underscores between them; at most 4300 digits,
  the default limit of the conversion.
\<close>

definition int_of_str :: "string \<Rightarrow> exc + int" where
  "int_of_str s =
     (let (neg, body) = split_sign (strip s);
          ds = filter (\<lambda>c. c \<noteq> CHR ''_'') body
      in if ds \<noteq> [] \<and> list_all is_digit ds \<and> underscores_ok CHR ''_'' body \<and> length ds \<le> 4300
         then Inr (if neg then - int (digits_value ds) else int (digits_value ds))
         else Inl ValueError)"

text \<open>The integer nearest to \<open>n / d\<close>, a tie going to the even one.\<close>

definition round_half_even :: "nat \<Rightarrow> nat \<Rightarrow> nat" where
  "round_half_even n d =
     (let q = n div d; r = n mod d
      in if 2 * r < d then q else if d < 2 * r then q + 1 else if even q then q else q + 1)"

fun bit_length :: "nat \<Rightarrow> nat" where
  "bit_length n = (if n = 0 then 0 else Suc (bit_length (n div 2)))"

declare bit_length.simps [simp del]

text \<open>The exponent \<open>k\<close> with \<open>2 ^ k \<le> n / d < 2 ^ (k + 1)\<close>, for positive \<open>n\<close> and \<open>d\<close>.\<close>

definition floor_log2 :: "nat \<Rightarrow> nat \<Rightarrow> int" where
  "floor_log2 n d =
     (let k = int (bit_length n) - int (bit_length d)
      in if (if 0 \<le> k then d * 2 ^ nat k \<le> n else d \<le> n * 2 ^ nat (- k)) then k else k - 1)"

text \<open>
  Rounding \<open>n / d\<close> to a binary format with \<open>p\<close> significant bits whose smallest unit is
  \<open>2 ^ emin\<close>: the result \<open>(m, ex)\<close> is the number \<open>m * 2 ^ ex\<close>.
\<close>

definition round_binary :: "nat \<Rightarrow> int \<Rightarrow> nat \<Rightarrow> nat \<Rightarrow> nat \<times> int" where
  "round_binary p emin n d =
     (if n = 0 then (0, emin)
      else let ex = max (floor_log2 n d - int p + 1) emin
           in (if 0 \<le> ex then round_half_even n (d * 2 ^ nat ex)
               else round_half_even (n * 2 ^ nat (- ex)) d, ex))"

text \<open>Binary64: 53 bits, unit \<open>2 ^ - 1074\<close>; a result of \<open>2 ^ 1024\<close> or more is an infinity.\<close>

definition to_double :: "bool \<Rightarrow> nat \<Rightarrow> nat \<Rightarrow> pyfloat" where
  "to_double neg n d =
     (let (m, ex) = round_binary 53 (- 1074) n d
      in if 2 ^ 2098 \<le> m * 2 ^ nat (ex + 1074) then Infinity neg else Finite neg m ex)"

definition lower :: "char \<Rightarrow> char" where
  "lower c = (let n = (of_char c :: nat) in if 65 \<le> n \<and> n \<le> 90 then char_of (n + 32) else c)"

definition is_e :: "char \<Rightarrow> bool" where
  "is_e c = (c = CHR ''e'' \<or> c = CHR ''E'')"

text \<open>
  \<open>float(s)\<close>: surrounding whitespace, a sign, then \<open>inf\<close>, \<open>infinity\<close> or \<open>nan\<close> in any
  case, or digits with an optional point and an optional exponent. A value too large for
  binary64 is an infinity, not an error.
\<close>

definition float_of_str :: "string \<Rightarrow> exc + pyfloat" where
  "float_of_str s =
     (let t = strip s;
          (neg, body) = split_sign (filter (\<lambda>c. c \<noteq> CHR ''_'') t);
          word = map lower body;
          ip = takeWhile is_digit body;
          r1 = dropWhile is_digit body;
          r2 = (case r1 of [] \<Rightarrow> r1 | c # cs \<Rightarrow> if c = CHR ''.'' then cs else r1);
          fp = takeWhile is_digit r2;
          r3 = dropWhile is_digit r2;
          (eneg, ed) = (case r3 of [] \<Rightarrow> (False, []) | c # cs \<Rightarrow> split_sign cs);
          e = (if eneg then - int (digits_value ed) else int (digits_value ed)) - int (length fp);
          mant = digits_value (ip @ fp)
      in if \<not> underscores_ok CHR 0x00 t then Inl ValueError
         else if word = ''inf'' \<or> word = ''infinity'' then Inr (Infinity neg)
         else if word = ''nan'' then Inr (NaN neg)
         else if ip @ fp \<noteq> [] \<and> (r3 = [] \<or> (is_e (hd r3) \<and> ed \<noteq> [] \<and> list_all is_digit ed))
         then Inr (if 0 \<le> e then to_double neg (mant * 10 ^ nat e) 1
                   else to_double neg mant (10 ^ nat (- e)))
         else Inl ValueError)"

text \<open>
  The conversion \<open>(float)x\<close> of \<open>struct.pack\<close>: binary32 has 24 bits and the unit
  \<open>2 ^ - 149\<close>; a finite value that rounds to \<open>2 ^ 128\<close> or more raises \<open>OverflowError\<close>.
  The pattern is the sign bit, then \<open>ex + 149\<close> in the exponent field added to the
  significand \<open>m\<close>, whose leading bit carries into the exponent.
\<close>

definition float32_of :: "pyfloat \<Rightarrow> exc + 32 word" where
  "float32_of x =
     (case x of
        NaN neg \<Rightarrow> Inr ((if neg then 0x80000000 else 0) + 0x7FC00000)
      | Infinity neg \<Rightarrow> Inr ((if neg then 0x80000000 else 0) + 0x7F800000)
      | Finite neg m e \<Rightarrow>
          (let (m', ex) = (if 0 \<le> e then round_binary 24 (- 149) (m * 2 ^ nat e) 1
                           else round_binary 24 (- 149) m (2 ^ nat (- e)))
           in if 2 ^ 277 \<le> m' * 2 ^ nat (ex + 149) then Inl OverflowError
              else Inr ((if neg then 0x80000000 else 0)
                        + word_of_nat (nat (ex + 149) * 2 ^ 23 + m'))))"

definition cpython :: "(string, pyfloat) builtins" where
  "cpython = \<lparr>py_float = float_of_str, py_int = int_of_str, to_float32 = float32_of\<rparr>"

text \<open>The printable characters of ASCII, where the Unicode database needs no table.\<close>

definition ascii_printable :: "nat \<Rightarrow> bool" where
  "ascii_printable c = (32 \<le> c \<and> c \<le> 126)"

section \<open>The scan loop\<close>

lemma scan_loop_append:
  "scan_loop data tb tag ps acc =
     acc @ map (\<lambda>i. (i, tag)) (filter (\<lambda>i. py_slice data i (i + 4) = tb) ps)"
  by (induction ps arbitrary: acc) simp_all

lemma range_py_upt: "range_py (int n - 3) = [0..<n - 3]"
proof -
  have "nat (int n - 3) = n - 3" by arith
  then show ?thesis by (simp add: range_py_def)
qed

lemma scan_pass:
  "scan_loop data tb tag (range_py (int (length data) - 3)) acc =
     acc @ map (\<lambda>i. (i, tag)) (filter (\<lambda>i. py_slice data i (i + 4) = tb) [0..<length data - 3])"
  by (simp only: scan_loop_append range_py_upt)

text \<open>Inside the range of the loop the slice is the four bytes from the position on.\<close>

lemma py_slice_four:
  assumes "i < length data - 3"
  shows "py_slice data i (i + 4) = [data ! i, data ! (i + 1), data ! (i + 2), data ! (i + 3)]"
proof -
  from assms have b: "i < length data" "Suc i < length data" "Suc (Suc i) < length data"
    "Suc (Suc (Suc i)) < length data" by arith+
  have d0: "drop i data = data ! i # drop (Suc i) data"
    using b(1) by (simp add: Cons_nth_drop_Suc)
  have d1: "drop (Suc i) data = data ! Suc i # drop (Suc (Suc i)) data"
    using b(2) by (simp add: Cons_nth_drop_Suc)
  have d2: "drop (Suc (Suc i)) data = data ! Suc (Suc i) # drop (Suc (Suc (Suc i))) data"
    using b(3) by (simp add: Cons_nth_drop_Suc)
  have d3: "drop (Suc (Suc (Suc i))) data
            = data ! Suc (Suc (Suc i)) # drop (Suc (Suc (Suc (Suc i)))) data"
    using b(4) by (simp add: Cons_nth_drop_Suc)
  have "take 4 (drop i data)
        = [data ! i, data ! Suc i, data ! Suc (Suc i), data ! Suc (Suc (Suc i))]"
    by (simp add: d0 d1 d2 d3 numeral_eq_Suc)
  then show ?thesis
    by (simp add: py_slice_def numeral_eq_Suc)
qed

section \<open>The matches of a valid target\<close>

lemma scan_matches_float:
  assumes "py_float env t = Inr x" and "to_float32 env x = Inr w"
  shows "scan_matches env data t ''float'' =
     Inr (map (\<lambda>i. (i, ''float_le''))
            (filter (\<lambda>i. py_slice data i (i + 4) = le_bytes32 w) [0..<length data - 3])
          @ map (\<lambda>i. (i, ''float_be''))
              (filter (\<lambda>i. py_slice data i (i + 4) = be_bytes32 w) [0..<length data - 3]))"
  using assms by (simp add: scan_matches_def bind_exc_def struct_pack_f_def scan_pass)

lemma scan_matches_int:
  assumes "py_int env t = Inr n" and "0 \<le> n" and "n \<le> 4294967295"
  shows "scan_matches env data t ''int'' =
     Inr (map (\<lambda>i. (i, ''uint32_le''))
            (filter (\<lambda>i. py_slice data i (i + 4) = le_bytes32 (word_of_int n))
               [0..<length data - 3])
          @ map (\<lambda>i. (i, ''uint32_be''))
              (filter (\<lambda>i. py_slice data i (i + 4) = be_bytes32 (word_of_int n))
                 [0..<length data - 3]))"
  using assms by (simp add: scan_matches_def bind_exc_def struct_pack_I_def scan_pass)

lemma hits_sorted: "sorted_wrt (<) (filter P [0..<n])"
  by (rule sorted_wrt_filter) (rule sorted_wrt_upt)

lemma hits_distinct: "distinct (filter P [0..<n])"
  by simp

section \<open>The exceptions of the scanner\<close>

lemma scan_float_raises:
  "scan_matches env data t ''float'' = Inl e
   \<longleftrightarrow> bind_exc (py_float env t) (struct_pack_f env True) = Inl e"
proof (cases "py_float env t")
  case (Inl a)
  then show ?thesis by (simp add: scan_matches_def bind_exc_def)
next
  case (Inr x)
  show ?thesis
  proof (cases "to_float32 env x")
    case (Inl a)
    with Inr show ?thesis by (simp add: scan_matches_def bind_exc_def struct_pack_f_def)
  next
    case w: (Inr w)
    from scan_matches_float [OF Inr w, of data] Inr w show ?thesis
      by (simp add: bind_exc_def struct_pack_f_def)
  qed
qed

lemma scan_int_raises:
  "scan_matches env data t ''int'' = Inl e
   \<longleftrightarrow> bind_exc (py_int env t) (struct_pack_I True) = Inl e"
proof (cases "py_int env t")
  case (Inl a)
  then show ?thesis by (simp add: scan_matches_def bind_exc_def)
next
  case (Inr n)
  show ?thesis
  proof (cases "0 \<le> n \<and> n \<le> 4294967295")
    case False
    then have "struct_pack_I True n = Inl StructError"
      unfolding struct_pack_I_def by (rule if_not_P)
    with Inr show ?thesis by (simp add: scan_matches_def bind_exc_def)
  next
    case True
    then have a: "0 \<le> n" and b: "n \<le> 4294967295" by simp_all
    from scan_matches_int [OF Inr a b, of data] Inr a b show ?thesis
      by (simp add: bind_exc_def struct_pack_I_def)
  qed
qed

lemma scan_other_type:
  "vt \<noteq> ''float'' \<Longrightarrow> vt \<noteq> ''int'' \<Longrightarrow> scan_matches env data t vt = Inr []"
  by (simp add: scan_matches_def)

lemma scan_for_value_raises:
  "scan_matches env data t vt = Inl e \<Longrightarrow>
   scan_for_value env (Some data) t vt = ([Scan_banner t vt], Some e)"
  by (simp add: scan_for_value_def)

lemma length_le_bytes32: "length (le_bytes32 w) = 4"
  by (simp add: le_bytes32_def)

lemma placed_is_hit:
  assumes "length tb = 4"
  shows "length pre \<in> set (filter (\<lambda>i. py_slice (pre @ tb @ post) i (i + 4) = tb)
                             [0..<length (pre @ tb @ post) - 3])"
  using assms by (simp add: py_slice_def)

lemma in_first_pass: "i \<in> set p1 \<Longrightarrow> (i, tag) \<in> set (map (\<lambda>i. (i, tag)) p1 @ qs)"
  by simp

lemma result_with_member: "r = Inr ms \<Longrightarrow> a \<in> set ms \<Longrightarrow> \<exists>ms. r = Inr ms \<and> a \<in> set ms"
  by simp

lemma hits_set: "set (filter P [0..<n - 3]) = {i. i + 4 \<le> n \<and> P i}"
  by auto

lemma palindrome_result:
  assumes "r = Inr (map f (filter P [0..<n - 3]) @ map g (filter Q [0..<n - 3]))"
    and "\<And>i. Q i = P i"
  shows "\<exists>ps. r = Inr (map f ps @ map g ps) \<and> distinct ps \<and> set ps = {i. i + 4 \<le> n \<and> P i}"
proof -
  have "Q = P" by (rule ext) (rule assms(2))
  then have "filter Q [0..<n - 3] = filter P [0..<n - 3]" by simp
  with assms(1) have "r = Inr (map f (filter P [0..<n - 3]) @ map g (filter P [0..<n - 3]))"
    by simp
  with hits_distinct [of P "n - 3"] hits_set [of P n] show ?thesis by blast
qed

lemma bind_float_raises:
  "(\<exists>e. bind_exc (py_float env t) (struct_pack_f env True) = Inl e)
   \<longleftrightarrow> (\<exists>e. py_float env t = Inl e) \<or> (\<exists>x e. py_float env t = Inr x \<and> to_float32 env x = Inl e)"
proof (cases "py_float env t")
  case (Inl a)
  then show ?thesis by (simp add: bind_exc_def)
next
  case (Inr x)
  then show ?thesis
    by (cases "to_float32 env x") (simp_all add: bind_exc_def struct_pack_f_def)
qed

lemma bind_int_raises:
  "(\<exists>e. bind_exc (py_int env t) (struct_pack_I True) = Inl e)
   \<longleftrightarrow> (\<exists>e. py_int env t = Inl e) \<or> (\<exists>n. py_int env t = Inr n \<and> (n < 0 \<or> 4294967295 < n))"
proof (cases "py_int env t")
  case (Inl a)
  then show ?thesis by (simp add: bind_exc_def)
next
  case (Inr n)
  have "(\<exists>e. struct_pack_I True n = Inl e) \<longleftrightarrow> (n < 0 \<or> 4294967295 < n)"
    by (cases "0 \<le> n \<and> n \<le> 4294967295") (auto simp: struct_pack_I_def)
  with Inr show ?thesis by (simp add: bind_exc_def)
qed

section \<open>Evaluating the built-ins on the examples\<close>

lemma bit_length_numeral:
  "bit_length (numeral k) = Suc (bit_length (numeral k div 2))"
  "bit_length 0 = 0"
  by (subst bit_length.simps, simp)+

lemmas float_eval =
  float_of_str_def strip_def is_space_def split_sign_def is_digit_def lower_def is_e_def
  digits_value_def to_double_def round_binary_def floor_log2_def round_half_even_def
  bit_length_numeral Let_def

lemmas int_eval =
  int_of_str_def strip_def is_space_def split_sign_def is_digit_def digits_value_def Let_def

lemmas pack_eval =
  float32_of_def round_binary_def floor_log2_def round_half_even_def bit_length_numeral Let_def

lemma float_of_str_60: "py_float cpython ''60'' = Inr (Finite False 8444249301319680 (- 47))"
  by (simp add: cpython_def float_eval)

lemma float32_of_60: "to_float32 cpython (Finite False 8444249301319680 (- 47)) = Inr 0x42700000"
  by (simp add: cpython_def pack_eval)

lemma int_of_str_60: "py_int cpython ''60'' = Inr 60"
  by (simp add: cpython_def int_eval)

lemma le_bytes32_60f: "le_bytes32 0x42700000 = [0x00, 0x00, 0x70, 0x42]"
  by (simp add: le_bytes32_def)

lemma be_bytes32_60f: "be_bytes32 0x42700000 = [0x42, 0x70, 0x00, 0x00]"
  by (simp add: be_bytes32_def)

lemma le_bytes32_60i: "le_bytes32 60 = [0x3C, 0x00, 0x00, 0x00]"
  by (simp add: le_bytes32_def)

lemma be_bytes32_60i: "be_bytes32 60 = [0x00, 0x00, 0x00, 0x3C]"
  by (simp add: be_bytes32_def)

lemma float_of_str_0: "py_float cpython ''0'' = Inr (Finite False 0 (- 1074))"
  by (simp add: cpython_def float_eval)

lemma float32_of_0: "to_float32 cpython (Finite False 0 (- 1074)) = Inr 0"
  by (simp add: cpython_def pack_eval)

lemma int_of_str_0: "py_int cpython ''0'' = Inr 0"
  by (simp add: cpython_def int_eval)

lemma bytes32_0: "le_bytes32 0 = [0, 0, 0, 0]" "be_bytes32 0 = [0, 0, 0, 0]"
  by (simp_all add: le_bytes32_def be_bytes32_def)

lemma float_of_str_1e39: "py_float cpython ''1e39'' = Inr (Finite False 6617444900424221 77)"
  by (simp add: cpython_def float_eval)

lemma float32_of_1e39: "to_float32 cpython (Finite False 6617444900424221 77) = Inl OverflowError"
  by (simp add: cpython_def pack_eval)

lemma int_of_str_4300000000: "py_int cpython ''4300000000'' = Inr 4300000000"
  by (simp add: cpython_def int_eval)

lemma float_of_str_nan_text: "py_float cpython ''not-a-number'' = Inl ValueError"
  by (simp add: cpython_def float_eval)

lemmas upt_eval = upt_conv_Cons range_py_def py_slice_def

section \<open>The scanner\<close>

text \<open>
  Claim C1. Each pass of \<open>scan_for_value\<close> visits the positions \<open>0\<close> to \<open>len(data) - 4\<close>
  inclusive, which are \<open>max (len(data) - 3) 0\<close> positions one byte apart; at each of them the
  slice compared is the four bytes from the position on; and for a target that converts and
  packs, the result is, pass by pass, the positions whose four bytes equal the packed target,
  each with the tag of the pass (the script's tags are \<open>float_le\<close>, \<open>float_be\<close>, \<open>uint32_le\<close>
  and \<open>uint32_be\<close>). On data shorter than four bytes the result is empty and nothing is raised.
\<close>

theorem scan_compares_every_position:
  "set (range_py (int (length data) - 3)) = {i. int i \<le> int (length data) - 4}
   \<and> length (range_py (int (length data) - 3)) = nat (max (int (length data) - 3) 0)
   \<and> (\<forall>i \<in> set (range_py (int (length data) - 3)).
         py_slice data i (i + 4) = [data ! i, data ! (i + 1), data ! (i + 2), data ! (i + 3)])
   \<and> (py_float env t = Inr x \<and> to_float32 env x = Inr w \<longrightarrow>
         scan_matches env data t ''float'' =
           Inr (map (\<lambda>i. (i, ''float_le''))
                  (filter (\<lambda>i. py_slice data i (i + 4) = le_bytes32 w)
                     (range_py (int (length data) - 3)))
                @ map (\<lambda>i. (i, ''float_be''))
                    (filter (\<lambda>i. py_slice data i (i + 4) = be_bytes32 w)
                       (range_py (int (length data) - 3))))
         \<and> (length data < 4 \<longrightarrow> scan_matches env data t ''float'' = Inr []))
   \<and> (py_int env t = Inr n \<and> 0 \<le> n \<and> n \<le> 4294967295 \<longrightarrow>
         scan_matches env data t ''int'' =
           Inr (map (\<lambda>i. (i, ''uint32_le''))
                  (filter (\<lambda>i. py_slice data i (i + 4) = le_bytes32 (word_of_int n))
                     (range_py (int (length data) - 3)))
                @ map (\<lambda>i. (i, ''uint32_be''))
                    (filter (\<lambda>i. py_slice data i (i + 4) = be_bytes32 (word_of_int n))
                       (range_py (int (length data) - 3))))
         \<and> (length data < 4 \<longrightarrow> scan_matches env data t ''int'' = Inr []))"
  (is "?positions \<and> ?count \<and> ?bytes \<and> (?hf \<longrightarrow> ?mf \<and> (?short \<longrightarrow> ?ef))
       \<and> (?hi \<longrightarrow> ?mi \<and> (?short \<longrightarrow> ?ei))")
proof -
  have positions: ?positions
  proof -
    have "\<And>i. (i < length data - 3) = (int i \<le> int (length data) - 4)" by arith
    then show ?thesis by (simp add: range_py_upt set_eq_iff)
  qed
  have count: ?count
  proof -
    have "length data - 3 = nat (max (int (length data) - 3) 0)" by arith
    then show ?thesis by (simp only: range_py_upt length_upt diff_zero)
  qed
  have bytes: ?bytes
  proof
    fix i assume "i \<in> set (range_py (int (length data) - 3))"
    then have "i < length data - 3" by (simp add: range_py_upt)
    then show "py_slice data i (i + 4) = [data ! i, data ! (i + 1), data ! (i + 2), data ! (i + 3)]"
      by (rule py_slice_four)
  qed
  have none: "?short \<Longrightarrow> [0..<length data - 3] = []" by simp
  have fl: "?hf \<longrightarrow> ?mf \<and> (?short \<longrightarrow> ?ef)"
  proof (intro impI conjI)
    assume h: ?hf
    from h have h1: "py_float env t = Inr x" by (rule conjunct1)
    from h have h2: "to_float32 env x = Inr w" by (rule conjunct2)
    note m = scan_matches_float [OF h1 h2, of data]
    show ?mf unfolding m by (simp only: range_py_upt)
    assume ?short
    with m none show ?ef by simp
  qed
  have it: "?hi \<longrightarrow> ?mi \<and> (?short \<longrightarrow> ?ei)"
  proof (intro impI conjI)
    assume h: ?hi
    from h have h1: "py_int env t = Inr n" by (rule conjunct1)
    from h have h2: "0 \<le> n" by (rule conjunct2 [THEN conjunct1])
    from h have h3: "n \<le> 4294967295" by (rule conjunct2 [THEN conjunct2])
    note m = scan_matches_int [OF h1 h2 h3, of data]
    show ?mi unfolding m by (simp only: range_py_upt)
    assume ?short
    with m none show ?ei by simp
  qed
  from positions count bytes fl it show ?thesis by (intro conjI)
qed

theorem scan_compares_every_position_witness:
  "py_float cpython ''60'' = Inr (Finite False 8444249301319680 (- 47))
   \<and> to_float32 cpython (Finite False 8444249301319680 (- 47)) = Inr 0x42700000
   \<and> py_int cpython ''60'' = Inr 60
   \<and> scan_matches cpython [0x00, 0x00, 0x70, 0x42, 0x70, 0x00, 0x00, 0x00, 0x3C, 0x00, 0x00, 0x00]
        ''60'' ''float'' = Inr [(0, ''float_le''), (3, ''float_be'')]
   \<and> scan_matches cpython [0x00, 0x00, 0x70, 0x42, 0x70, 0x00, 0x00, 0x00, 0x3C, 0x00, 0x00, 0x00]
        ''60'' ''int'' = Inr [(8, ''uint32_le''), (5, ''uint32_be'')]
   \<and> scan_matches cpython [0x3C, 0x00, 0x00] ''60'' ''int'' = Inr []"
  using scan_compares_every_position
          [of "[0x00, 0x00, 0x70, 0x42, 0x70, 0x00, 0x00, 0x00, 0x3C, 0x00, 0x00, 0x00]"
              cpython "''60''" "Finite False 8444249301319680 (- 47)" "0x42700000" 60]
        scan_compares_every_position
          [of "[0x3C, 0x00, 0x00]"
              cpython "''60''" "Finite False 8444249301319680 (- 47)" "0x42700000" 60]
  by (simp add: float_of_str_60 float32_of_60 int_of_str_60 le_bytes32_60f be_bytes32_60f
        le_bytes32_60i be_bytes32_60i upt_eval)

text \<open>
  Claim C3. For a target that converts and packs, the result is all the matches of the first
  pass (the little-endian tag), which are the positions of \<open>range(len(data) - 3)\<close> whose four
  bytes are the little-endian packing, followed by all the matches of the second pass (the
  big-endian tag), and the offsets of each pass are strictly ascending. The two passes are
  never interleaved, even where a big-endian match lies between two little-endian ones.
\<close>

theorem scan_passes_in_order:
  "(py_float env t = Inr x \<and> to_float32 env x = Inr w \<longrightarrow>
      scan_matches env data t ''float''
        = Inr (map (\<lambda>i. (i, ''float_le''))
                 (filter (\<lambda>i. py_slice data i (i + 4) = le_bytes32 w)
                    (range_py (int (length data) - 3)))
               @ map (\<lambda>i. (i, ''float_be''))
                   (filter (\<lambda>i. py_slice data i (i + 4) = be_bytes32 w)
                      (range_py (int (length data) - 3))))
      \<and> sorted_wrt (<) (filter (\<lambda>i. py_slice data i (i + 4) = le_bytes32 w)
                           (range_py (int (length data) - 3)))
      \<and> sorted_wrt (<) (filter (\<lambda>i. py_slice data i (i + 4) = be_bytes32 w)
                           (range_py (int (length data) - 3))))
   \<and> (py_int env t = Inr n \<and> 0 \<le> n \<and> n \<le> 4294967295 \<longrightarrow>
      scan_matches env data t ''int''
        = Inr (map (\<lambda>i. (i, ''uint32_le''))
                 (filter (\<lambda>i. py_slice data i (i + 4) = le_bytes32 (word_of_int n))
                    (range_py (int (length data) - 3)))
               @ map (\<lambda>i. (i, ''uint32_be''))
                   (filter (\<lambda>i. py_slice data i (i + 4) = be_bytes32 (word_of_int n))
                      (range_py (int (length data) - 3))))
      \<and> sorted_wrt (<) (filter (\<lambda>i. py_slice data i (i + 4) = le_bytes32 (word_of_int n))
                           (range_py (int (length data) - 3)))
      \<and> sorted_wrt (<) (filter (\<lambda>i. py_slice data i (i + 4) = be_bytes32 (word_of_int n))
                           (range_py (int (length data) - 3))))"
  (is "(?hf \<longrightarrow> ?mf \<and> ?sf1 \<and> ?sf2) \<and> (?hi \<longrightarrow> ?mi \<and> ?si1 \<and> ?si2)")
proof (intro conjI impI)
  assume h: ?hf
  from h have h1: "py_float env t = Inr x" by (rule conjunct1)
  from h have h2: "to_float32 env x = Inr w" by (rule conjunct2)
  show ?mf
    unfolding scan_matches_float [OF h1 h2, of data] by (simp only: range_py_upt)
next
  assume h: ?hi
  from h have h1: "py_int env t = Inr n" by (rule conjunct1)
  from h have h2: "0 \<le> n" by (rule conjunct2 [THEN conjunct1])
  from h have h3: "n \<le> 4294967295" by (rule conjunct2 [THEN conjunct2])
  show ?mi
    unfolding scan_matches_int [OF h1 h2 h3, of data] by (simp only: range_py_upt)
next
  show ?sf1 by (simp only: range_py_upt) (rule hits_sorted)
  show ?sf2 by (simp only: range_py_upt) (rule hits_sorted)
  show ?si1 by (simp only: range_py_upt) (rule hits_sorted)
  show ?si2 by (simp only: range_py_upt) (rule hits_sorted)
qed

theorem scan_passes_in_order_witness:
  "py_float cpython ''60'' = Inr (Finite False 8444249301319680 (- 47))
   \<and> to_float32 cpython (Finite False 8444249301319680 (- 47)) = Inr 0x42700000
   \<and> py_int cpython ''60'' = Inr 60
   \<and> scan_matches cpython [0x00, 0x00, 0x70, 0x42, 0x70, 0x00, 0x00, 0x70, 0x42] ''60'' ''float''
       = Inr [(0, ''float_le''), (5, ''float_le''), (3, ''float_be'')]
   \<and> scan_matches cpython [0x3C, 0x00, 0x00, 0x00, 0x3C, 0x00, 0x00, 0x00, 0x3C] ''60'' ''int''
       = Inr [(0, ''uint32_le''), (4, ''uint32_le''), (1, ''uint32_be''), (5, ''uint32_be'')]
   \<and> sorted_wrt (<) [0, 5 :: nat] \<and> sorted_wrt (<) [0, 4 :: nat] \<and> sorted_wrt (<) [1, 5 :: nat]"
  using scan_passes_in_order
          [of cpython "''60''" "Finite False 8444249301319680 (- 47)" "0x42700000"
              "[0x00, 0x00, 0x70, 0x42, 0x70, 0x00, 0x00, 0x70, 0x42]" 60]
        scan_passes_in_order
          [of cpython "''60''" "Finite False 8444249301319680 (- 47)" "0x42700000"
              "[0x3C, 0x00, 0x00, 0x00, 0x3C, 0x00, 0x00, 0x00, 0x3C]" 60]
  by (simp add: float_of_str_60 float32_of_60 int_of_str_60 le_bytes32_60f be_bytes32_60f
        le_bytes32_60i be_bytes32_60i upt_eval)

text \<open>
  Claim C5. Round trip: when the four little-endian bytes that \<open>struct.pack\<close> gives for the
  target stand at offset \<open>length pre\<close> of the data, the scan returns a result that holds
  that offset with the little-endian tag of the class (\<open>float_le\<close> is the script's tag for
  the little-endian binary32 pass, \<open>uint32_le\<close> for the unsigned one).
\<close>

theorem scan_finds_placed_value:
  "(py_float env t = Inr x \<and> to_float32 env x = Inr w \<longrightarrow>
      (\<exists>ms. scan_matches env (pre @ le_bytes32 w @ post) t ''float'' = Inr ms
            \<and> (length pre, ''float_le'') \<in> set ms))
   \<and> (py_int env t = Inr n \<and> 0 \<le> n \<and> n \<le> 4294967295 \<longrightarrow>
      (\<exists>ms. scan_matches env (pre @ le_bytes32 (word_of_int n) @ post) t ''int'' = Inr ms
            \<and> (length pre, ''uint32_le'') \<in> set ms))"
proof (intro conjI impI)
  assume h: "py_float env t = Inr x \<and> to_float32 env x = Inr w"
  from h have h1: "py_float env t = Inr x" by (rule conjunct1)
  from h have h2: "to_float32 env x = Inr w" by (rule conjunct2)
  note hit = placed_is_hit [OF length_le_bytes32, of pre w post]
  show "\<exists>ms. scan_matches env (pre @ le_bytes32 w @ post) t ''float'' = Inr ms
            \<and> (length pre, ''float_le'') \<in> set ms"
    by (rule result_with_member [OF scan_matches_float [OF h1 h2] in_first_pass [OF hit]])
next
  assume h: "py_int env t = Inr n \<and> 0 \<le> n \<and> n \<le> 4294967295"
  from h have h1: "py_int env t = Inr n" by (rule conjunct1)
  from h have h2: "0 \<le> n" by (rule conjunct2 [THEN conjunct1])
  from h have h3: "n \<le> 4294967295" by (rule conjunct2 [THEN conjunct2])
  note hit = placed_is_hit [OF length_le_bytes32, of pre "word_of_int n" post]
  show "\<exists>ms. scan_matches env (pre @ le_bytes32 (word_of_int n) @ post) t ''int'' = Inr ms
            \<and> (length pre, ''uint32_le'') \<in> set ms"
    by (rule result_with_member [OF scan_matches_int [OF h1 h2 h3] in_first_pass [OF hit]])
qed

theorem scan_finds_placed_value_witness:
  "py_float cpython ''60'' = Inr (Finite False 8444249301319680 (- 47))
   \<and> to_float32 cpython (Finite False 8444249301319680 (- 47)) = Inr 0x42700000
   \<and> py_int cpython ''60'' = Inr 60
   \<and> (\<exists>ms. scan_matches cpython [0xAA, 0x00, 0x00, 0x70, 0x42, 0xBB] ''60'' ''float'' = Inr ms
            \<and> (1, ''float_le'') \<in> set ms)
   \<and> (\<exists>ms. scan_matches cpython [0xAA, 0x3C, 0x00, 0x00, 0x00, 0xBB] ''60'' ''int'' = Inr ms
            \<and> (1, ''uint32_le'') \<in> set ms)"
  using scan_finds_placed_value
          [of cpython "''60''" "Finite False 8444249301319680 (- 47)" "0x42700000"
              "[0xAA]" "[0xBB]" 60]
  by (simp add: float_of_str_60 float32_of_60 int_of_str_60 le_bytes32_60f le_bytes32_60i)

text \<open>
  Claim C9. When the little-endian and the big-endian packing of the target are the same four
  bytes (the integer 0, or any byte palindrome), both passes find the same offsets: the
  result lists each matching offset once with the little-endian tag and, after all of these,
  once more with the big-endian tag. There is no deduplication.
\<close>

theorem scan_reports_palindrome_twice:
  "(py_float env t = Inr x \<and> to_float32 env x = Inr w \<and> le_bytes32 w = be_bytes32 w \<longrightarrow>
      (\<exists>ps. scan_matches env data t ''float''
               = Inr (map (\<lambda>i. (i, ''float_le'')) ps @ map (\<lambda>i. (i, ''float_be'')) ps)
            \<and> distinct ps
            \<and> set ps = {i. i + 4 \<le> length data \<and> py_slice data i (i + 4) = le_bytes32 w}))
   \<and> (py_int env t = Inr n \<and> 0 \<le> n \<and> n \<le> 4294967295
       \<and> le_bytes32 (word_of_int n) = be_bytes32 (word_of_int n) \<longrightarrow>
      (\<exists>ps. scan_matches env data t ''int''
               = Inr (map (\<lambda>i. (i, ''uint32_le'')) ps @ map (\<lambda>i. (i, ''uint32_be'')) ps)
            \<and> distinct ps
            \<and> set ps = {i. i + 4 \<le> length data
                          \<and> py_slice data i (i + 4) = le_bytes32 (word_of_int n)}))"
proof (intro conjI impI)
  assume h: "py_float env t = Inr x \<and> to_float32 env x = Inr w \<and> le_bytes32 w = be_bytes32 w"
  from h have h1: "py_float env t = Inr x" by (rule conjunct1)
  from h have h2: "to_float32 env x = Inr w" by (rule conjunct2 [THEN conjunct1])
  from h have h3: "le_bytes32 w = be_bytes32 w" by (rule conjunct2 [THEN conjunct2])
  show "\<exists>ps. scan_matches env data t ''float''
               = Inr (map (\<lambda>i. (i, ''float_le'')) ps @ map (\<lambda>i. (i, ''float_be'')) ps)
            \<and> distinct ps
            \<and> set ps = {i. i + 4 \<le> length data \<and> py_slice data i (i + 4) = le_bytes32 w}"
    by (rule palindrome_result [OF scan_matches_float [OF h1 h2]]) (simp only: h3)
next
  assume h: "py_int env t = Inr n \<and> 0 \<le> n \<and> n \<le> 4294967295
       \<and> le_bytes32 (word_of_int n) = be_bytes32 (word_of_int n)"
  from h have h1: "py_int env t = Inr n" by (rule conjunct1)
  from h have h2: "0 \<le> n" by (rule conjunct2 [THEN conjunct1])
  from h have h3: "n \<le> 4294967295" by (rule conjunct2 [THEN conjunct2, THEN conjunct1])
  from h have h4: "le_bytes32 (word_of_int n :: 32 word) = be_bytes32 (word_of_int n)"
    by (rule conjunct2 [THEN conjunct2, THEN conjunct2])
  show "\<exists>ps. scan_matches env data t ''int''
               = Inr (map (\<lambda>i. (i, ''uint32_le'')) ps @ map (\<lambda>i. (i, ''uint32_be'')) ps)
            \<and> distinct ps
            \<and> set ps = {i. i + 4 \<le> length data
                          \<and> py_slice data i (i + 4) = le_bytes32 (word_of_int n)}"
    by (rule palindrome_result [OF scan_matches_int [OF h1 h2 h3]]) (simp only: h4)
qed

theorem scan_reports_palindrome_twice_witness:
  "py_float cpython ''0'' = Inr (Finite False 0 (- 1074))
   \<and> to_float32 cpython (Finite False 0 (- 1074)) = Inr 0
   \<and> py_int cpython ''0'' = Inr 0
   \<and> le_bytes32 0 = be_bytes32 0
   \<and> (\<exists>ps. scan_matches cpython [0, 0, 0, 0, 0, 7] ''0'' ''float''
               = Inr (map (\<lambda>i. (i, ''float_le'')) ps @ map (\<lambda>i. (i, ''float_be'')) ps)
            \<and> distinct ps
            \<and> set ps = {i. i + 4 \<le> 6 \<and> py_slice [0, 0, 0, 0, 0, 7 :: byte] i (i + 4) = [0, 0, 0, 0]})
   \<and> (\<exists>ps. scan_matches cpython [0, 0, 0, 0, 0, 7] ''0'' ''int''
               = Inr (map (\<lambda>i. (i, ''uint32_le'')) ps @ map (\<lambda>i. (i, ''uint32_be'')) ps)
            \<and> distinct ps
            \<and> set ps = {i. i + 4 \<le> 6 \<and> py_slice [0, 0, 0, 0, 0, 7 :: byte] i (i + 4) = [0, 0, 0, 0]})"
  using scan_reports_palindrome_twice
          [of cpython "''0''" "Finite False 0 (- 1074)" 0 "[0, 0, 0, 0, 0, 7]" 0]
  by (simp add: float_of_str_0 float32_of_0 int_of_str_0 bytes32_0)

text \<open>
  Claim C4, as the script behaves. The scan raises exactly when the conversion of the target
  raises: \<open>float\<close> or \<open>int\<close> refuses the target, or the integer is outside
  \<open>[0, 4294967295]\<close>, or, for the class \<open>float\<close>, \<open>struct.pack\<close> refuses the converted
  value (a finite value too large for binary32 is an \<open>OverflowError\<close>). The exception is
  the one of the first conversion of the branch, which comes before the first loop, so it
  does not depend on the data; the call then has printed the banner only, no match. Any
  other value of \<open>value_type\<close> raises nothing and finds nothing.
\<close>

theorem scan_raises_iff_conversion_fails:
  "((\<exists>e. scan_matches env data t ''float'' = Inl e)
      \<longleftrightarrow> (\<exists>e. py_float env t = Inl e)
          \<or> (\<exists>x e. py_float env t = Inr x \<and> to_float32 env x = Inl e))
   \<and> ((\<exists>e. scan_matches env data t ''int'' = Inl e)
      \<longleftrightarrow> (\<exists>e. py_int env t = Inl e)
          \<or> (\<exists>n. py_int env t = Inr n \<and> (n < 0 \<or> 4294967295 < n)))
   \<and> (scan_matches env data t ''float'' = Inl e
      \<longleftrightarrow> bind_exc (py_float env t) (struct_pack_f env True) = Inl e)
   \<and> (scan_matches env data t ''int'' = Inl e
      \<longleftrightarrow> bind_exc (py_int env t) (struct_pack_I True) = Inl e)
   \<and> (scan_matches env data t vt = Inl e
      \<longrightarrow> scan_for_value env (Some data) t vt = ([Scan_banner t vt], Some e))
   \<and> (vt \<noteq> ''float'' \<and> vt \<noteq> ''int'' \<longrightarrow> scan_matches env data t vt = Inr [])"
proof (intro conjI impI)
  show "(\<exists>e. scan_matches env data t ''float'' = Inl e)
      \<longleftrightarrow> (\<exists>e. py_float env t = Inl e)
          \<or> (\<exists>x e. py_float env t = Inr x \<and> to_float32 env x = Inl e)"
    by (simp only: scan_float_raises bind_float_raises)
  show "(\<exists>e. scan_matches env data t ''int'' = Inl e)
      \<longleftrightarrow> (\<exists>e. py_int env t = Inl e)
          \<or> (\<exists>n. py_int env t = Inr n \<and> (n < 0 \<or> 4294967295 < n))"
    by (simp only: scan_int_raises bind_int_raises)
  show "scan_matches env data t ''float'' = Inl e
      \<longleftrightarrow> bind_exc (py_float env t) (struct_pack_f env True) = Inl e"
    by (rule scan_float_raises)
  show "scan_matches env data t ''int'' = Inl e
      \<longleftrightarrow> bind_exc (py_int env t) (struct_pack_I True) = Inl e"
    by (rule scan_int_raises)
next
  assume "scan_matches env data t vt = Inl e"
  then show "scan_for_value env (Some data) t vt = ([Scan_banner t vt], Some e)"
    by (rule scan_for_value_raises)
next
  assume "vt \<noteq> ''float'' \<and> vt \<noteq> ''int''"
  then show "scan_matches env data t vt = Inr []"
    by (simp add: scan_other_type)
qed

theorem scan_raises_iff_conversion_fails_witness:
  "scan_matches cpython [0x00, 0x00, 0x70, 0x42] ''4300000000'' ''int'' = Inl StructError
   \<and> scan_for_value cpython (Some [0x00, 0x00, 0x70, 0x42]) ''4300000000'' ''int''
       = ([Scan_banner ''4300000000'' ''int''], Some StructError)
   \<and> scan_matches cpython [0x00, 0x00, 0x70, 0x42] ''not-a-number'' ''float'' = Inl ValueError
   \<and> scan_for_value cpython (Some [0x00, 0x00, 0x70, 0x42]) ''not-a-number'' ''float''
       = ([Scan_banner ''not-a-number'' ''float''], Some ValueError)
   \<and> ''double'' \<noteq> ''float'' \<and> ''double'' \<noteq> ''int''
   \<and> scan_matches cpython [0x00, 0x00, 0x70, 0x42] ''60'' ''double'' = Inr []"
  using scan_raises_iff_conversion_fails
          [of cpython "[0x00, 0x00, 0x70, 0x42]" "''4300000000''" StructError "''int''"]
        scan_raises_iff_conversion_fails
          [of cpython "[0x00, 0x00, 0x70, 0x42]" "''not-a-number''" ValueError "''float''"]
        scan_raises_iff_conversion_fails
          [of cpython "[0x00, 0x00, 0x70, 0x42]" "''60''" ValueError "''double''"]
  by (simp add: int_of_str_4300000000 float_of_str_nan_text bind_exc_def struct_pack_I_def)

text \<open>
  Claim C4 as written says that a float target that parses never aborts the scan. The
  string \<open>1e39\<close> parses, to a binary64 value above the range of binary32, and the first
  \<open>struct.pack('<f', ...)\<close> raises \<open>OverflowError\<close>.
\<close>

theorem parseable_float_target_aborts:
  "py_float cpython ''1e39'' = Inr (Finite False 6617444900424221 77)
   \<and> scan_matches cpython [0x00, 0x00, 0x70, 0x42] ''1e39'' ''float'' = Inl OverflowError"
  by (simp add: scan_float_raises float_of_str_1e39 float32_of_1e39 bind_exc_def struct_pack_f_def)

section \<open>The interpreter\<close>

lemma unpack4:
  assumes "length data = 4"
  shows "struct_unpack ''<f'' data = Inr (Float32 (word_of_nat (uint_le data)))"
    and "struct_unpack ''>f'' data = Inr (Float32 (word_of_nat (uint_be data)))"
    and "struct_unpack ''<I'' data = Inr (Integer (int (uint_le data)))"
    and "struct_unpack ''>I'' data = Inr (Integer (int (uint_be data)))"
    and "struct_unpack ''<i'' data = Inr (Integer (sint (word_of_nat (uint_le data) :: 32 word)))"
    and "struct_unpack ''>i'' data = Inr (Integer (sint (word_of_nat (uint_be data) :: 32 word)))"
  using assms by (simp_all add: struct_unpack_def)

lemma unpack2:
  assumes "length data = 2"
  shows "struct_unpack ''<H'' data = Inr (Integer (int (uint_le data)))"
    and "struct_unpack ''>H'' data = Inr (Integer (int (uint_be data)))"
  using assms by (simp_all add: struct_unpack_def)

lemma unpack1:
  assumes "length data = 1"
  shows "struct_unpack ''b'' data = Inr (Integer (sint (word_of_nat (uint_le data) :: 8 word)))"
  using assms by (simp add: struct_unpack_def)

lemma numeric_lines_4:
  assumes "length data = 4"
  shows "numeric_lines data =
     ([Interp_heading,
       Interp ''Float (LE)'' (Float32 (word_of_nat (uint_le data))),
       Interp ''Float (BE)'' (Float32 (word_of_nat (uint_be data))),
       Interp ''Uint32 (LE)'' (Integer (int (uint_le data))),
       Interp ''Uint32 (BE)'' (Integer (int (uint_be data))),
       Interp ''Int32 (LE)'' (Integer (sint (word_of_nat (uint_le data) :: 32 word))),
       Interp ''Int32 (BE)'' (Integer (sint (word_of_nat (uint_be data) :: 32 word)))], None)"
  using assms by (simp add: numeric_lines_def attempt_def unpack4)

lemma numeric_lines_2:
  assumes "length data = 2"
  shows "numeric_lines data =
     ([Interp_heading,
       Interp ''Uint16 (LE)'' (Integer (int (uint_le data))),
       Interp ''Uint16 (BE)'' (Integer (int (uint_be data)))], None)"
  using assms by (simp add: numeric_lines_def attempt_quiet_def unpack2)

lemma numeric_lines_1:
  assumes "length data = 1"
  shows "numeric_lines data =
     ([Interp_heading,
       Interp ''Uint8'' (Integer (uint (hd data))),
       Interp ''Int8'' (Integer (sint (word_of_nat (uint_le data) :: 8 word)))]
      @ (if 32 \<le> hd data \<and> hd data \<le> 126 then [Ascii (hd data)] else []), None)"
  using assms by (simp add: numeric_lines_def unpack1)

lemma numeric_lines_other:
  assumes "length data \<noteq> 4" and "length data \<noteq> 2" and "length data \<noteq> 1"
  shows "numeric_lines data = ([], None)"
  using assms by (simp add: numeric_lines_def)

lemma numeric_lines_cases:
  obtains "length data = 4" | "length data = 2" | "length data = 1"
  | "length data \<noteq> 4" "length data \<noteq> 2" "length data \<noteq> 1"
  by blast

lemma numeric_lines_no_exception: "snd (numeric_lines data) = None"
  by (cases data rule: numeric_lines_cases)
     (simp_all add: numeric_lines_4 numeric_lines_2 numeric_lines_1 numeric_lines_other)

lemma labels_numeric_lines:
  "labels (fst (numeric_lines data)) =
     (if length data = 4
      then [''Float (LE)'', ''Float (BE)'', ''Uint32 (LE)'', ''Uint32 (BE)'',
            ''Int32 (LE)'', ''Int32 (BE)'']
      else if length data = 2 then [''Uint16 (LE)'', ''Uint16 (BE)'']
      else if length data = 1 then [''Uint8'', ''Int8'']
      else [])"
  by (cases data rule: numeric_lines_cases)
     (simp_all add: numeric_lines_4 numeric_lines_2 numeric_lines_1 numeric_lines_other)

lemma report_eq:
  "report printable offset data =
     ([Offset_banner offset, Raw_bytes data, Blank] @ fst (numeric_lines data)
      @ utf8_lines printable data @ [Blank], None)"
  using numeric_lines_no_exception [of data]
  by (cases "numeric_lines data") (simp add: report_def)

lemma analyze_offset_read:
  assumes "read_at content offset byte_count = Inr data"
  shows "analyze_offset printable (Some content) offset byte_count =
     ((if int (length data) < byte_count then [Short_read (length data) byte_count] else [])
      @ [Offset_banner offset, Raw_bytes data, Blank] @ fst (numeric_lines data)
      @ utf8_lines printable data @ [Blank], None)"
  using assms by (simp add: analyze_offset_def report_eq)

lemma labels_append: "labels (xs @ ys) = labels xs @ labels ys"
  by (induction xs rule: labels.induct) simp_all

lemma labels_utf8_lines: "labels (utf8_lines printable data) = []"
  by (simp add: utf8_lines_def split: sum.splits)

lemma labels_analyze_offset:
  assumes "read_at content offset byte_count = Inr data"
  shows "labels (fst (analyze_offset printable (Some content) offset byte_count))
         = labels (fst (numeric_lines data))"
  by (simp add: analyze_offset_read [OF assms] labels_append labels_utf8_lines)

text \<open>Packing a pattern and unpacking the bytes gives the pattern back.\<close>

lemma bytes_sum:
  fixes x :: nat
  assumes "x < 4294967296"
  shows "x mod 256 + 256 * (x div 256 mod 256 + 256 * (x div 65536 mod 256
           + 256 * (x div 16777216 mod 256))) = x"
proof -
  have d2: "x div 65536 = x div 256 div 256"
    using div_mult2_eq [of x 256 256] by simp
  have d3: "x div 16777216 = x div 256 div 256 div 256"
    using div_mult2_eq [of x 65536 256] d2 by simp
  have small: "x div 16777216 < 256"
    using assms by (simp add: less_mult_imp_div_less)
  have "x div 256 div 256 div 256 mod 256 = x div 256 div 256 div 256"
    using small d3 by simp
  then show ?thesis
    unfolding d2 d3 by (simp only: mod_mult_div_eq)
qed

lemma bytes_sum_top:
  fixes x :: nat
  assumes "x < 4294967296"
  shows "x div 16777216 mod 256 = x div 16777216"
  using assms by (simp add: less_mult_imp_div_less)

lemma unat_byte_of:
  fixes w :: "32 word"
  shows "unat (ucast (drop_bit n w) :: 8 word) = unat w div 2 ^ n mod 256"
  by (simp only: unsigned_ucast_eq unat_drop_bit_eq) (simp add: take_bit_eq_mod drop_bit_eq_div)

lemma uint_le_bytes32: "uint_le (le_bytes32 w) = unat w"
proof -
  have "unat w < 2 ^ LENGTH(32)" by (rule unsigned_less)
  then have bound: "unat w < 4294967296" by simp
  have b0: "unat (ucast w :: 8 word) = unat w mod 256"
    using unat_byte_of [of 0 w] by simp
  have b1: "unat (ucast (drop_bit 8 w) :: 8 word) = unat w div 256 mod 256"
    using unat_byte_of [of 8 w] by simp
  have b2: "unat (ucast (drop_bit 16 w) :: 8 word) = unat w div 65536 mod 256"
    using unat_byte_of [of 16 w] by simp
  have b3: "unat (ucast (drop_bit 24 w) :: 8 word) = unat w div 16777216 mod 256"
    using unat_byte_of [of 24 w] by simp
  show ?thesis
    unfolding uint_le_def le_bytes32_def foldr.simps o_def b0 b1 b2 b3
    using bytes_sum [OF bound] bytes_sum_top [OF bound] by simp
qed

lemma uint_be_bytes32: "uint_be (be_bytes32 w) = unat w"
  using uint_le_bytes32 [of w] by (simp add: uint_be_def be_bytes32_def le_bytes32_def)

lemma unpack_le_bytes32: "struct_unpack ''<f'' (le_bytes32 w) = Inr (Float32 w)"
  by (simp add: unpack4(1) length_le_bytes32 uint_le_bytes32)

lemma uint_be_le: "uint_be (rev bs) = uint_le bs"
  by (simp add: uint_be_def)

lemma unpack_be_bytes32: "struct_unpack ''>f'' (be_bytes32 w) = Inr (Float32 w)"
proof -
  have "length (be_bytes32 w) = 4" by (simp add: be_bytes32_def)
  then show ?thesis by (simp add: unpack4(2) uint_be_bytes32)
qed

lemmas utf8_eval =
  utf8_lines_def utf8_len_def valid_tail_def is_cont_def code_point_def bind_exc_def
  ascii_printable_def Let_def

text \<open>
  Claim C2. When the bytes read are exactly four, the function prints exactly six
  interpretation lines, in this order: \<open>Float (LE)\<close>, \<open>Float (BE)\<close>, \<open>Uint32 (LE)\<close>,
  \<open>Uint32 (BE)\<close>, \<open>Int32 (LE)\<close>, \<open>Int32 (BE)\<close> (the script's labels for the encodings
  float32_le, float32_be, uint32_le, uint32_be, int32_le and int32_be), each with the value
  decoded from the four bytes, whatever the bytes are.
\<close>

theorem four_bytes_six_interpretations:
  assumes "read_at content offset byte_count = Inr data" and "length data = 4"
  shows "analyze_offset printable (Some content) offset byte_count =
           ((if 4 < byte_count then [Short_read 4 byte_count] else [])
            @ [Offset_banner offset, Raw_bytes data, Blank, Interp_heading,
               Interp ''Float (LE)'' (Float32 (word_of_nat (uint_le data))),
               Interp ''Float (BE)'' (Float32 (word_of_nat (uint_be data))),
               Interp ''Uint32 (LE)'' (Integer (int (uint_le data))),
               Interp ''Uint32 (BE)'' (Integer (int (uint_be data))),
               Interp ''Int32 (LE)'' (Integer (sint (word_of_nat (uint_le data) :: 32 word))),
               Interp ''Int32 (BE)'' (Integer (sint (word_of_nat (uint_be data) :: 32 word)))]
            @ utf8_lines printable data @ [Blank], None)
         \<and> labels (fst (analyze_offset printable (Some content) offset byte_count))
             = [''Float (LE)'', ''Float (BE)'', ''Uint32 (LE)'', ''Uint32 (BE)'',
                ''Int32 (LE)'', ''Int32 (BE)'']"
proof
  show "analyze_offset printable (Some content) offset byte_count =
           ((if 4 < byte_count then [Short_read 4 byte_count] else [])
            @ [Offset_banner offset, Raw_bytes data, Blank, Interp_heading,
               Interp ''Float (LE)'' (Float32 (word_of_nat (uint_le data))),
               Interp ''Float (BE)'' (Float32 (word_of_nat (uint_be data))),
               Interp ''Uint32 (LE)'' (Integer (int (uint_le data))),
               Interp ''Uint32 (BE)'' (Integer (int (uint_be data))),
               Interp ''Int32 (LE)'' (Integer (sint (word_of_nat (uint_le data) :: 32 word))),
               Interp ''Int32 (BE)'' (Integer (sint (word_of_nat (uint_be data) :: 32 word)))]
            @ utf8_lines printable data @ [Blank], None)"
    using assms(2) by (simp add: analyze_offset_read [OF assms(1)] numeric_lines_4)
  show "labels (fst (analyze_offset printable (Some content) offset byte_count))
             = [''Float (LE)'', ''Float (BE)'', ''Uint32 (LE)'', ''Uint32 (BE)'',
                ''Int32 (LE)'', ''Int32 (BE)'']"
    using assms(2) by (simp add: labels_analyze_offset [OF assms(1)] labels_numeric_lines)
qed

theorem four_bytes_six_interpretations_witness:
  "read_at [0xFF, 0xFF, 0xFF, 0xFF, 0x00] 0 4 = Inr [0xFF, 0xFF, 0xFF, 0xFF]
   \<and> length [0xFF, 0xFF, 0xFF, 0xFF :: byte] = 4
   \<and> analyze_offset ascii_printable (Some [0xFF, 0xFF, 0xFF, 0xFF, 0x00]) 0 4 =
        ([Offset_banner 0, Raw_bytes [0xFF, 0xFF, 0xFF, 0xFF], Blank, Interp_heading,
          Interp ''Float (LE)'' (Float32 0xFFFFFFFF),
          Interp ''Float (BE)'' (Float32 0xFFFFFFFF),
          Interp ''Uint32 (LE)'' (Integer 4294967295),
          Interp ''Uint32 (BE)'' (Integer 4294967295),
          Interp ''Int32 (LE)'' (Integer (- 1)),
          Interp ''Int32 (BE)'' (Integer (- 1)),
          Blank], None)
   \<and> labels (fst (analyze_offset ascii_printable (Some [0xFF, 0xFF, 0xFF, 0xFF, 0x00]) 0 4))
       = [''Float (LE)'', ''Float (BE)'', ''Uint32 (LE)'', ''Uint32 (BE)'',
          ''Int32 (LE)'', ''Int32 (BE)'']"
  using four_bytes_six_interpretations
          [of "[0xFF, 0xFF, 0xFF, 0xFF, 0x00]" 0 4 "[0xFF, 0xFF, 0xFF, 0xFF]" ascii_printable]
  by (simp add: read_at_def uint_le_def uint_be_def utf8_eval)

lemma no_invalid_numeric: "Interp_invalid label \<notin> set (fst (numeric_lines data))"
  by (cases data rule: numeric_lines_cases)
     (simp_all add: numeric_lines_4 numeric_lines_2 numeric_lines_1 numeric_lines_other)

lemma no_invalid_utf8: "Interp_invalid label \<notin> set (utf8_lines printable data)"
  by (simp add: utf8_lines_def split: sum.splits)

lemma read_at_raises:
  "read_at content offset byte_count = Inl e \<Longrightarrow>
   e = OSError \<or> e = ValueError \<or> e = OverflowError"
  by (simp add: read_at_def split: if_splits)

lemma analyze_offset_sound:
  "Interp_invalid label \<notin> set (fst (analyze_offset printable file offset byte_count))
   \<and> snd (analyze_offset printable file offset byte_count) \<noteq> Some StructError"
proof (cases "file")
  case None
  then show ?thesis by (simp add: analyze_offset_def)
next
  case (Some content)
  show ?thesis
  proof (cases "read_at content offset byte_count")
    case (Inl e)
    with read_at_raises [OF Inl] Some show ?thesis by (auto simp: analyze_offset_def)
  next
    case (Inr data)
    show ?thesis
      unfolding Some analyze_offset_read [OF Inr]
      by (simp add: no_invalid_numeric no_invalid_utf8)
  qed
qed

text \<open>
  Claim C6. Decoding under a fixed-width format never fails on data of the width of the
  format: \<open>struct.unpack\<close> returns a value for each of the six four-byte formats, the two
  two-byte formats and the one-byte format, so no call prints an \<open>[invalid]\<close> line and none
  ends with \<open>struct.error\<close>. Every binary32 pattern, the NaNs and the infinities included,
  is printed as the value of the float line of the byte order it was written in.
\<close>

theorem fixed_width_decoding_never_fails:
  "Interp_invalid label \<notin> set (fst (analyze_offset printable file offset byte_count))
   \<and> snd (analyze_offset printable file offset byte_count) \<noteq> Some StructError
   \<and> (length data = 4 \<longrightarrow>
        struct_unpack ''<f'' data = Inr (Float32 (word_of_nat (uint_le data)))
        \<and> struct_unpack ''>f'' data = Inr (Float32 (word_of_nat (uint_be data)))
        \<and> struct_unpack ''<I'' data = Inr (Integer (int (uint_le data)))
        \<and> struct_unpack ''>I'' data = Inr (Integer (int (uint_be data)))
        \<and> struct_unpack ''<i'' data = Inr (Integer (sint (word_of_nat (uint_le data) :: 32 word)))
        \<and> struct_unpack ''>i'' data = Inr (Integer (sint (word_of_nat (uint_be data) :: 32 word))))
   \<and> (length data = 2 \<longrightarrow>
        struct_unpack ''<H'' data = Inr (Integer (int (uint_le data)))
        \<and> struct_unpack ''>H'' data = Inr (Integer (int (uint_be data))))
   \<and> (length data = 1 \<longrightarrow>
        struct_unpack ''b'' data = Inr (Integer (sint (word_of_nat (uint_le data) :: 8 word))))
   \<and> attempt ''Float (LE)'' ''<f'' (le_bytes32 w) = [Interp ''Float (LE)'' (Float32 w)]
   \<and> attempt ''Float (BE)'' ''>f'' (be_bytes32 w) = [Interp ''Float (BE)'' (Float32 w)]"
proof (intro conjI impI)
  show "Interp_invalid label \<notin> set (fst (analyze_offset printable file offset byte_count))"
    by (rule analyze_offset_sound [THEN conjunct1])
  show "snd (analyze_offset printable file offset byte_count) \<noteq> Some StructError"
    by (rule analyze_offset_sound [THEN conjunct2])
  show "attempt ''Float (LE)'' ''<f'' (le_bytes32 w) = [Interp ''Float (LE)'' (Float32 w)]"
    by (simp add: attempt_def unpack_le_bytes32)
  show "attempt ''Float (BE)'' ''>f'' (be_bytes32 w) = [Interp ''Float (BE)'' (Float32 w)]"
    by (simp add: attempt_def unpack_be_bytes32)
qed (simp_all add: unpack4 unpack2 unpack1)

theorem fixed_width_decoding_never_fails_witness:
  "length [0x00, 0x00, 0xC0, 0x7F :: byte] = 4
   \<and> is_nan32 0x7FC00000 \<and> is_inf32 0xFF800000
   \<and> struct_unpack ''<f'' [0x00, 0x00, 0xC0, 0x7F] = Inr (Float32 0x7FC00000)
   \<and> struct_unpack ''>f'' [0x00, 0x00, 0xC0, 0x7F] = Inr (Float32 0x0000C07F)
   \<and> struct_unpack ''<I'' [0x00, 0x00, 0xC0, 0x7F] = Inr (Integer 2143289344)
   \<and> struct_unpack ''>I'' [0x00, 0x00, 0xC0, 0x7F] = Inr (Integer 49279)
   \<and> struct_unpack ''<i'' [0x00, 0x00, 0xC0, 0x7F] = Inr (Integer 2143289344)
   \<and> struct_unpack ''>i'' [0x00, 0x00, 0xC0, 0x7F] = Inr (Integer 49279)
   \<and> length [0x80, 0xFF :: byte] = 2
   \<and> struct_unpack ''<H'' [0x80, 0xFF] = Inr (Integer 65408)
   \<and> struct_unpack ''>H'' [0x80, 0xFF] = Inr (Integer 33023)
   \<and> length [0x80 :: byte] = 1
   \<and> struct_unpack ''b'' [0x80] = Inr (Integer (- 128))
   \<and> attempt ''Float (BE)'' ''>f'' (be_bytes32 0xFF800000)
       = [Interp ''Float (BE)'' (Float32 0xFF800000)]
   \<and> attempt ''Float (LE)'' ''<f'' (le_bytes32 0x7FC00000)
       = [Interp ''Float (LE)'' (Float32 0x7FC00000)]"
  using fixed_width_decoding_never_fails [of _ _ _ _ _ "[0x00, 0x00, 0xC0, 0x7F]" "0x7FC00000"]
        fixed_width_decoding_never_fails [of _ _ _ _ _ "[0x80, 0xFF]" "0xFF800000"]
        fixed_width_decoding_never_fails [of _ _ _ _ _ "[0x80]" "0xFF800000"]
  by (simp add: uint_le_def uint_be_def is_nan32_def is_inf32_def)

lemma read_at_returns:
  assumes "read_at content offset byte_count = Inr data" and "0 \<le> byte_count"
  shows "data = py_slice content (nat offset) (nat offset + nat byte_count)"
    and "int (length data) = max 0 (min byte_count (int (length content) - offset))"
proof -
  from assms have o: "0 \<le> offset"
    by (simp add: read_at_def split: if_splits)
  from assms show d: "data = py_slice content (nat offset) (nat offset + nat byte_count)"
    by (auto simp: read_at_def py_slice_def split: if_splits)
  from o assms(2) show "int (length data) = max 0 (min byte_count (int (length content) - offset))"
    unfolding d by (auto simp: py_slice_def)
qed

text \<open>
  Claim C7, as the script behaves. Whenever the seek and the read return, for a requested
  count that is not negative, the bytes read are the slice of the file from the offset, of
  length \<open>min byte_count (len - offset)\<close> and never below zero. Everything printed after the
  warning is computed from the bytes read, not from the count requested, and the labels of
  the interpretation lines are decided by the number of bytes read alone. A short read prints
  the warning line and the call still ends without an exception: asking for four bytes where
  two are left prints the two 16-bit lines.
\<close>

theorem window_selects_by_bytes_read:
  assumes "read_at content offset byte_count = Inr data" and "0 \<le> byte_count"
  shows "data = py_slice content (nat offset) (nat offset + nat byte_count)
      \<and> int (length data) = max 0 (min byte_count (int (length content) - offset))
      \<and> analyze_offset printable (Some content) offset byte_count
          = ((if int (length data) < byte_count then [Short_read (length data) byte_count] else [])
             @ fst (report printable offset data), None)
      \<and> labels (fst (analyze_offset printable (Some content) offset byte_count))
          = (if length data = 4
             then [''Float (LE)'', ''Float (BE)'', ''Uint32 (LE)'', ''Uint32 (BE)'',
                   ''Int32 (LE)'', ''Int32 (BE)'']
             else if length data = 2 then [''Uint16 (LE)'', ''Uint16 (BE)'']
             else if length data = 1 then [''Uint8'', ''Int8'']
             else [])"
proof (intro conjI)
  show "data = py_slice content (nat offset) (nat offset + nat byte_count)"
    by (rule read_at_returns(1) [OF assms])
  show "int (length data) = max 0 (min byte_count (int (length content) - offset))"
    by (rule read_at_returns(2) [OF assms])
  show "analyze_offset printable (Some content) offset byte_count
          = ((if int (length data) < byte_count then [Short_read (length data) byte_count] else [])
             @ fst (report printable offset data), None)"
    by (simp add: analyze_offset_read [OF assms(1)] report_eq)
  show "labels (fst (analyze_offset printable (Some content) offset byte_count))
          = (if length data = 4
             then [''Float (LE)'', ''Float (BE)'', ''Uint32 (LE)'', ''Uint32 (BE)'',
                   ''Int32 (LE)'', ''Int32 (BE)'']
             else if length data = 2 then [''Uint16 (LE)'', ''Uint16 (BE)'']
             else if length data = 1 then [''Uint8'', ''Int8'']
             else [])"
    by (simp only: labels_analyze_offset [OF assms(1)] labels_numeric_lines)
qed

theorem window_selects_by_bytes_read_witness:
  "read_at [1, 2, 3, 4, 5, 6] 4 4 = Inr [5, 6]
   \<and> (0 :: int) \<le> 4
   \<and> [5, 6 :: byte] = py_slice [1, 2, 3, 4, 5, 6] (nat 4) (nat 4 + nat 4)
   \<and> int (length [5, 6 :: byte]) = max 0 (min 4 (int (length [1, 2, 3, 4, 5, 6 :: byte]) - 4))
   \<and> analyze_offset ascii_printable (Some [1, 2, 3, 4, 5, 6]) 4 4
       = ([Short_read 2 4, Offset_banner 4, Raw_bytes [5, 6], Blank, Interp_heading,
           Interp ''Uint16 (LE)'' (Integer 1541), Interp ''Uint16 (BE)'' (Integer 1286),
           Blank], None)
   \<and> labels (fst (analyze_offset ascii_printable (Some [1, 2, 3, 4, 5, 6]) 4 4))
       = [''Uint16 (LE)'', ''Uint16 (BE)'']"
  using window_selects_by_bytes_read [of "[1, 2, 3, 4, 5, 6]" 4 4 "[5, 6]" ascii_printable]
  by (simp add: read_at_def py_slice_def report_eq numeric_lines_2 uint_le_def uint_be_def
        utf8_eval)

text \<open>
  Claim C7 as written holds of every requested length. A request of \<open>2 ^ 63\<close> bytes at
  offset 0 of a two-byte file has fewer bytes available than requested, and the window of the
  claim would be the two bytes; but \<open>f.read\<close> refuses the count with \<open>OverflowError\<close>, so the
  call prints nothing and ends with that exception.
\<close>

theorem huge_request_is_fatal:
  "(0 :: int) \<le> 0 \<and> (1 :: int) \<le> 2 ^ 63
   \<and> max 0 (min (2 ^ 63) (int (length [5, 6 :: byte]) - 0)) = 2
   \<and> analyze_offset ascii_printable (Some [5, 6]) 0 (2 ^ 63) = ([], Some OverflowError)"
  by (simp add: analyze_offset_def read_at_def)

lemma utf8_not_numeric: "Utf8_string text \<notin> set (fst (numeric_lines data))"
  by (cases data rule: numeric_lines_cases)
     (simp_all add: numeric_lines_4 numeric_lines_2 numeric_lines_1 numeric_lines_other)

lemma utf8_lines_member:
  "Utf8_string text \<in> set (utf8_lines printable data)
   \<longleftrightarrow> utf8_decode data = Inr text \<and> list_all printable text"
  by (cases "utf8_decode data") (auto simp: utf8_lines_def)

lemma utf8_lines_present:
  "utf8_decode data = Inr text \<Longrightarrow> list_all printable text \<Longrightarrow>
   utf8_lines printable data = [Utf8_string text]"
  by (simp add: utf8_lines_def)

lemma utf8_lines_absent:
  "\<not> (\<exists>text. utf8_decode data = Inr text \<and> list_all printable text) \<Longrightarrow>
   utf8_lines printable data = []"
  by (cases "utf8_decode data") (auto simp: utf8_lines_def)

lemma decode_Hi: "utf8_decode [0x48, 0x69] = Inr [72, 105]"
  by (simp add: utf8_eval)

lemma decode_bad: "utf8_decode [0xC3, 0x28] = Inl UnicodeDecodeError"
  by (simp add: utf8_eval)

lemma decode_newline: "utf8_decode [0x48, 0x0A] = Inr [72, 10]"
  by (simp add: utf8_eval)

text \<open>
  Claim C8. The output holds the line of the UTF-8 text exactly when the whole of the bytes
  read decodes as UTF-8 and every character of the text is printable. When the decoding
  fails or the text is not printable, that one line is left out and nothing else changes:
  in both cases the lines before it, the numeric interpretations among them, are the same
  function of the bytes read, and the call ends without an exception.
\<close>

theorem utf8_line_iff_decodes_printable:
  assumes "read_at content offset byte_count = Inr data"
  shows "(Utf8_string text \<in> set (fst (analyze_offset printable (Some content) offset byte_count))
           \<longleftrightarrow> utf8_decode data = Inr text \<and> list_all printable text)
     \<and> (utf8_decode data = Inr text \<and> list_all printable text \<longrightarrow>
          analyze_offset printable (Some content) offset byte_count
          = ((if int (length data) < byte_count then [Short_read (length data) byte_count] else [])
             @ [Offset_banner offset, Raw_bytes data, Blank] @ fst (numeric_lines data)
             @ [Utf8_string text, Blank], None))
     \<and> (\<not> (\<exists>text. utf8_decode data = Inr text \<and> list_all printable text) \<longrightarrow>
          analyze_offset printable (Some content) offset byte_count
          = ((if int (length data) < byte_count then [Short_read (length data) byte_count] else [])
             @ [Offset_banner offset, Raw_bytes data, Blank] @ fst (numeric_lines data)
             @ [Blank], None))"
proof (intro conjI impI)
  show "Utf8_string text \<in> set (fst (analyze_offset printable (Some content) offset byte_count))
           \<longleftrightarrow> utf8_decode data = Inr text \<and> list_all printable text"
    by (simp add: analyze_offset_read [OF assms] utf8_not_numeric utf8_lines_member)
next
  assume "utf8_decode data = Inr text \<and> list_all printable text"
  then have "utf8_lines printable data = [Utf8_string text]"
    by (simp add: utf8_lines_present)
  then show "analyze_offset printable (Some content) offset byte_count
          = ((if int (length data) < byte_count then [Short_read (length data) byte_count] else [])
             @ [Offset_banner offset, Raw_bytes data, Blank] @ fst (numeric_lines data)
             @ [Utf8_string text, Blank], None)"
    by (simp add: analyze_offset_read [OF assms])
next
  assume "\<not> (\<exists>text. utf8_decode data = Inr text \<and> list_all printable text)"
  then have "utf8_lines printable data = []"
    by (rule utf8_lines_absent)
  then show "analyze_offset printable (Some content) offset byte_count
          = ((if int (length data) < byte_count then [Short_read (length data) byte_count] else [])
             @ [Offset_banner offset, Raw_bytes data, Blank] @ fst (numeric_lines data)
             @ [Blank], None)"
    by (simp add: analyze_offset_read [OF assms])
qed

theorem utf8_line_iff_decodes_printable_witness:
  "read_at [0x48, 0x69] 0 2 = Inr [0x48, 0x69]
   \<and> utf8_decode [0x48, 0x69] = Inr [72, 105] \<and> list_all ascii_printable [72, 105]
   \<and> analyze_offset ascii_printable (Some [0x48, 0x69]) 0 2
       = ([Offset_banner 0, Raw_bytes [0x48, 0x69], Blank]
          @ fst (numeric_lines [0x48, 0x69]) @ [Utf8_string [72, 105], Blank], None)
   \<and> read_at [0xC3, 0x28] 0 2 = Inr [0xC3, 0x28]
   \<and> \<not> (\<exists>text. utf8_decode [0xC3, 0x28] = Inr text \<and> list_all ascii_printable text)
   \<and> analyze_offset ascii_printable (Some [0xC3, 0x28]) 0 2
       = ([Offset_banner 0, Raw_bytes [0xC3, 0x28], Blank]
          @ fst (numeric_lines [0xC3, 0x28]) @ [Blank], None)
   \<and> read_at [0x48, 0x0A] 0 2 = Inr [0x48, 0x0A]
   \<and> \<not> (\<exists>text. utf8_decode [0x48, 0x0A] = Inr text \<and> list_all ascii_printable text)
   \<and> Utf8_string [72, 10] \<notin> set (fst (analyze_offset ascii_printable (Some [0x48, 0x0A]) 0 2))"
  using utf8_line_iff_decodes_printable
          [of "[0x48, 0x69]" 0 2 "[0x48, 0x69]" "[72, 105]" ascii_printable]
        utf8_line_iff_decodes_printable
          [of "[0xC3, 0x28]" 0 2 "[0xC3, 0x28]" "[]" ascii_printable]
        utf8_line_iff_decodes_printable
          [of "[0x48, 0x0A]" 0 2 "[0x48, 0x0A]" "[72, 10]" ascii_printable]
  by (simp add: read_at_def decode_Hi decode_bad decode_newline ascii_printable_def
        utf8_not_numeric del: utf8_decode.simps)

text \<open>
  Claim C10. When the read returns no byte (the offset is at or past the end of the file, or
  no byte was asked for), no interpretation line is printed, and the line of the UTF-8 text
  is printed with the empty text: the empty bytes decode, and \<open>isprintable\<close> holds of the
  empty string whatever the table of printable characters is.
\<close>

theorem empty_window_prints_empty_text:
  assumes "read_at content offset byte_count = Inr []"
  shows "analyze_offset printable (Some content) offset byte_count
        = ((if 0 < byte_count then [Short_read 0 byte_count] else [])
           @ [Offset_banner offset, Raw_bytes [], Blank, Utf8_string [], Blank], None)
        \<and> labels (fst (analyze_offset printable (Some content) offset byte_count)) = []"
proof
  show "analyze_offset printable (Some content) offset byte_count
        = ((if 0 < byte_count then [Short_read 0 byte_count] else [])
           @ [Offset_banner offset, Raw_bytes [], Blank, Utf8_string [], Blank], None)"
    by (simp add: analyze_offset_read [OF assms] numeric_lines_other utf8_lines_def)
  show "labels (fst (analyze_offset printable (Some content) offset byte_count)) = []"
    by (simp add: labels_analyze_offset [OF assms] labels_numeric_lines)
qed

theorem empty_window_prints_empty_text_witness:
  "read_at [1, 2, 3] 3 4 = Inr []
   \<and> analyze_offset ascii_printable (Some [1, 2, 3]) 3 4
       = ([Short_read 0 4, Offset_banner 3, Raw_bytes [], Blank, Utf8_string [], Blank], None)
   \<and> labels (fst (analyze_offset ascii_printable (Some [1, 2, 3]) 3 4)) = []
   \<and> read_at [1, 2, 3] 10 4 = Inr []
   \<and> analyze_offset ascii_printable (Some [1, 2, 3]) 10 4
       = ([Short_read 0 4, Offset_banner 10, Raw_bytes [], Blank, Utf8_string [], Blank], None)
   \<and> read_at [1, 2, 3] 1 0 = Inr []
   \<and> analyze_offset ascii_printable (Some [1, 2, 3]) 1 0
       = ([Offset_banner 1, Raw_bytes [], Blank, Utf8_string [], Blank], None)"
  using empty_window_prints_empty_text [of "[1, 2, 3]" 3 4 ascii_printable]
        empty_window_prints_empty_text [of "[1, 2, 3]" 10 4 ascii_printable]
        empty_window_prints_empty_text [of "[1, 2, 3]" 1 0 ascii_printable]
  by (simp add: read_at_def)

end
